theory Spec2Isabelle
  imports Main "HOL-Library.Word"
begin

unbundle bit_operations_syntax

section \<open>The allocator of mm.c as a shallow embedding\<close>

text \<open>
  The allocator is modelled on an LP64 machine, the one the comment of \<open>mm_init\<close>
  describes ("each part is of 8 bytes"): \<open>sizeof(void *) = 8\<close>, \<open>size_t\<close> and
  \<open>uintptr_t\<close> are 64-bit unsigned words whose arithmetic wraps around, and \<open>int\<close>
  is a 32-bit signed word.

  Memory is a function from byte addresses to the machine word stored there. All accesses
  of mm.c are word accesses (\<open>GET\<close>, \<open>PUT\<close> and the link macros), and on a heap
  laid out by \<open>mm_init\<close> they are word aligned, so cells never overlap. An access that C
  leaves undefined (outside the region obtained from \<open>mem_sbrk\<close>) reads or writes the
  cell at that address like any other access.
\<close>

type_synonym word_t = "64 word"

record mm_state =
  mem :: "word_t \<Rightarrow> word_t"
  heap_listp :: word_t
  free_listp :: word_t
  mem_heap :: word_t
  mem_brk :: word_t
  mem_max_addr :: word_t

subsection \<open>Basic constants and macros\<close>

definition WSIZE :: word_t where
  "WSIZE = 8"

definition DSIZE :: word_t where
  "DSIZE = 2 * WSIZE"

definition CHUNKSIZE :: word_t where
  "CHUNKSIZE = push_bit 12 1"

definition MAX_of :: "word_t \<Rightarrow> word_t \<Rightarrow> word_t" where
  "MAX_of x y = (if x > y then x else y)"

definition PACK :: "word_t \<Rightarrow> word_t \<Rightarrow> word_t" where
  "PACK sz alloc = sz OR alloc"

definition GET :: "mm_state \<Rightarrow> word_t \<Rightarrow> word_t" where
  "GET s p = mem s p"

definition PUT :: "word_t \<Rightarrow> word_t \<Rightarrow> mm_state \<Rightarrow> mm_state" where
  "PUT p val s = s\<lparr>mem := (mem s)(p := val)\<rparr>"

definition GET_SIZE :: "mm_state \<Rightarrow> word_t \<Rightarrow> word_t" where
  "GET_SIZE s p = GET s p AND NOT (DSIZE - 1)"

definition GET_ALLOC :: "mm_state \<Rightarrow> word_t \<Rightarrow> word_t" where
  "GET_ALLOC s p = GET s p AND 1"

definition HDRP :: "word_t \<Rightarrow> word_t" where
  "HDRP bp = bp - WSIZE"

definition FTRP :: "mm_state \<Rightarrow> word_t \<Rightarrow> word_t" where
  "FTRP s bp = bp + GET_SIZE s (HDRP bp) - DSIZE"

definition NEXT_BLKP :: "mm_state \<Rightarrow> word_t \<Rightarrow> word_t" where
  "NEXT_BLKP s bp = bp + GET_SIZE s (bp - WSIZE)"

definition PREV_BLKP :: "mm_state \<Rightarrow> word_t \<Rightarrow> word_t" where
  "PREV_BLKP s bp = bp - GET_SIZE s (bp - DSIZE)"

definition GET_NEXT_PTR :: "mm_state \<Rightarrow> word_t \<Rightarrow> word_t" where
  "GET_NEXT_PTR s bp = mem s (bp + WSIZE)"

definition GET_PREV_PTR :: "mm_state \<Rightarrow> word_t \<Rightarrow> word_t" where
  "GET_PREV_PTR s bp = mem s bp"

definition SET_NEXT_PTR :: "word_t \<Rightarrow> word_t \<Rightarrow> mm_state \<Rightarrow> mm_state" where
  "SET_NEXT_PTR bp qp s = s\<lparr>mem := (mem s)(bp + WSIZE := qp)\<rparr>"

definition SET_PREV_PTR :: "word_t \<Rightarrow> word_t \<Rightarrow> mm_state \<Rightarrow> mm_state" where
  "SET_PREV_PTR bp qp s = s\<lparr>mem := (mem s)(bp := qp)\<rparr>"

subsection \<open>The heap primitive and the C library\<close>

text \<open>
  Modelled from the spec: \<open>mem_sbrk\<close> of memlib.c, which is not among the sources. The
  spec describes it as \<open>extend(n_bytes) \<rightarrow> address | error\<close>, contiguous with prior
  extensions: it returns the old break and moves the break up by \<open>incr\<close> bytes, or
  refuses with \<open>(void *)-1\<close> when the heap would grow past its limit.
\<close>

definition mem_sbrk :: "word_t \<Rightarrow> mm_state \<Rightarrow> word_t \<times> mm_state" where
  "mem_sbrk incr s =
     (if unat (mem_max_addr s) < unat (mem_brk s) + unat incr then (- 1, s)
      else (mem_brk s, s\<lparr>mem_brk := mem_brk s + incr\<rparr>))"

text \<open>
  \<open>memcpy(dst, src, n)\<close> of the C library on word cells: the \<open>n div 8\<close> words starting
  at \<open>src\<close> are copied to the cells starting at \<open>dst\<close>; every value read is the one
  from before the call.
\<close>

definition memcpy :: "word_t \<Rightarrow> word_t \<Rightarrow> word_t \<Rightarrow> mm_state \<Rightarrow> mm_state" where
  "memcpy dst src n s =
     s\<lparr>mem := (\<lambda>a. if a - dst < n \<and> (a - dst) mod WSIZE = 0 \<and> a - dst + WSIZE - 1 < n
                    then mem s (src + (a - dst)) else mem s a)\<rparr>"

subsection \<open>The free list\<close>

definition insert_in_free_list :: "word_t \<Rightarrow> mm_state \<Rightarrow> mm_state" where
  "insert_in_free_list bp s =
     (let s = SET_NEXT_PTR bp (free_listp s) s;
          s = SET_PREV_PTR (free_listp s) bp s;
          s = SET_PREV_PTR bp 0 s
      in s\<lparr>free_listp := bp\<rparr>)"

definition remove_from_free_list :: "word_t \<Rightarrow> mm_state \<Rightarrow> mm_state" where
  "remove_from_free_list bp s =
     (let s = (if GET_PREV_PTR s bp \<noteq> 0
               then SET_NEXT_PTR (GET_PREV_PTR s bp) (GET_NEXT_PTR s bp) s
               else s\<lparr>free_listp := GET_NEXT_PTR s bp\<rparr>)
      in SET_PREV_PTR (GET_NEXT_PTR s bp) (GET_PREV_PTR s bp) s)"

subsection \<open>Coalescing, heap extension, search and placement\<close>

definition coalesce :: "word_t \<Rightarrow> mm_state \<Rightarrow> word_t \<times> mm_state" where
  "coalesce bp s =
     (let NEXT_ALLOC = (GET_ALLOC s (HDRP (NEXT_BLKP s bp)) \<noteq> 0);
          PREV_ALLOC = (GET_ALLOC s (FTRP s (PREV_BLKP s bp)) \<noteq> 0);
          sz = GET_SIZE s (HDRP bp)
      in if PREV_ALLOC \<and> NEXT_ALLOC then (bp, insert_in_free_list bp s)
         else if PREV_ALLOC \<and> \<not> NEXT_ALLOC then
           (let sz = sz + GET_SIZE s (HDRP (NEXT_BLKP s bp));
                s = remove_from_free_list (NEXT_BLKP s bp) s;
                s = PUT (HDRP bp) (PACK sz 0) s;
                s = PUT (FTRP s bp) (PACK sz 0) s
            in (bp, insert_in_free_list bp s))
         else if \<not> PREV_ALLOC \<and> NEXT_ALLOC then
           (let sz = sz + GET_SIZE s (HDRP (PREV_BLKP s bp));
                bp = PREV_BLKP s bp;
                s = remove_from_free_list bp s;
                s = PUT (HDRP bp) (PACK sz 0) s;
                s = PUT (FTRP s bp) (PACK sz 0) s
            in (bp, insert_in_free_list bp s))
         else if \<not> PREV_ALLOC \<and> \<not> NEXT_ALLOC then
           (let sz = sz + GET_SIZE s (HDRP (PREV_BLKP s bp))
                            + GET_SIZE s (HDRP (NEXT_BLKP s bp));
                s = remove_from_free_list (PREV_BLKP s bp) s;
                s = remove_from_free_list (NEXT_BLKP s bp) s;
                bp = PREV_BLKP s bp;
                s = PUT (HDRP bp) (PACK sz 0) s;
                s = PUT (FTRP s bp) (PACK sz 0) s
            in (bp, insert_in_free_list bp s))
         else (bp, insert_in_free_list bp s))"

definition extend_heap :: "word_t \<Rightarrow> mm_state \<Rightarrow> word_t \<times> mm_state" where
  "extend_heap words s =
     (let sz = (if words mod 2 \<noteq> 0 then (words + 1) * WSIZE else words * WSIZE);
          (bp, s) = mem_sbrk sz s
      in if bp = - 1 then (0, s)
         else
           (let s = PUT (HDRP bp) (PACK sz 0) s;
                s = PUT (FTRP s bp) (PACK sz 0) s;
                s = PUT (HDRP (NEXT_BLKP s bp)) (PACK 0 1) s
            in coalesce bp s))"

text \<open>
  The loop of \<open>find_fit\<close>, from the block \<open>bp\<close> on. The walk follows the links stored
  in memory and ends only at a block whose header has the allocated bit set, so it may run
  forever: not returning is the value \<open>None\<close>. The null pointer is \<open>0\<close>.
\<close>

partial_function (option) find_fit_from :: "word_t \<Rightarrow> mm_state \<Rightarrow> word_t \<Rightarrow> word_t option" where
  "find_fit_from asize s bp =
     (if GET_ALLOC s (HDRP bp) = 0
      then (if asize \<le> GET_SIZE s (HDRP bp) then Some bp
            else find_fit_from asize s (GET_NEXT_PTR s bp))
      else Some 0)"

declare find_fit_from.simps [code]

definition find_fit :: "word_t \<Rightarrow> mm_state \<Rightarrow> word_t option" where
  "find_fit asize s = find_fit_from asize s (free_listp s)"

definition place :: "word_t \<Rightarrow> word_t \<Rightarrow> mm_state \<Rightarrow> mm_state" where
  "place bp asize s =
     (let csize = GET_SIZE s (HDRP bp)
      in if 4 * WSIZE \<le> csize - asize then
           (let s = PUT (HDRP bp) (PACK asize 1) s;
                s = PUT (FTRP s bp) (PACK asize 1) s;
                s = remove_from_free_list bp s;
                bp = NEXT_BLKP s bp;
                s = PUT (HDRP bp) (PACK (csize - asize) 0) s;
                s = PUT (FTRP s bp) (PACK (csize - asize) 0) s
            in snd (coalesce bp s))
         else
           (let s = PUT (HDRP bp) (PACK csize 1) s;
                s = PUT (FTRP s bp) (PACK csize 1) s
            in remove_from_free_list bp s))"

subsection \<open>The allocator API\<close>

definition mm_init :: "mm_state \<Rightarrow> int \<times> mm_state" where
  "mm_init s =
     (let (p, s) = mem_sbrk (6 * WSIZE) s;
          s = s\<lparr>heap_listp := p\<rparr>
      in if heap_listp s = - 1 then (- 1, s)
         else
           (let s = PUT (heap_listp s) 0 s;
                s = PUT (heap_listp s + 1 * WSIZE) (PACK (2 * DSIZE) 1) s;
                s = PUT (heap_listp s + 2 * WSIZE) 0 s;
                s = PUT (heap_listp s + 3 * WSIZE) 0 s;
                s = PUT (heap_listp s + 4 * WSIZE) (PACK (2 * DSIZE) 1) s;
                s = PUT (heap_listp s + 5 * WSIZE) (PACK 0 1) s;
                s = s\<lparr>heap_listp := heap_listp s + 2 * WSIZE\<rparr>;
                s = s\<lparr>free_listp := heap_listp s\<rparr>;
                (bp, s) = extend_heap (CHUNKSIZE div WSIZE) s
            in if bp = 0 then (- 1, s) else (0, s)))"

text \<open>
  The adjusted block size: the expression that \<open>mm_malloc\<close> (lines 155 to 158) and
  \<open>mm_realloc\<close> (lines 231 to 234) both compute from the requested size, in
  \<open>size_t\<close> arithmetic.
\<close>

definition adjusted_size :: "word_t \<Rightarrow> word_t" where
  "adjusted_size sz =
     (if sz \<le> DSIZE then 2 * DSIZE
      else DSIZE * ((sz + DSIZE + (DSIZE - 1)) div DSIZE))"

definition mm_malloc :: "word_t \<Rightarrow> mm_state \<Rightarrow> (word_t \<times> mm_state) option" where
  "mm_malloc sz s =
     (if sz \<le> 0 then Some (0, s)
      else
        (let asize = adjusted_size sz
         in case find_fit asize s of
              None \<Rightarrow> None
            | Some bp \<Rightarrow>
                if bp \<noteq> 0 then Some (bp, place bp asize s)
                else
                  (let extendsize = MAX_of asize CHUNKSIZE;
                       (bp, s) = extend_heap (extendsize div WSIZE) s
                   in if bp = 0 then Some (0, s)
                      else Some (bp, place bp asize s))))"

definition mm_free :: "word_t \<Rightarrow> mm_state \<Rightarrow> mm_state" where
  "mm_free bp s =
     (if bp = 0 then s
      else
        (let sz = GET_SIZE s (HDRP bp);
             s = PUT (HDRP bp) (PACK sz 0) s;
             s = PUT (FTRP s bp) (PACK sz 0) s
         in snd (coalesce bp s)))"

text \<open>The cast \<open>(int)size\<close>: the low 32 bits of the size, read as a signed number.\<close>

definition int_of_size :: "word_t \<Rightarrow> int" where
  "int_of_size sz = sint (ucast sz :: 32 word)"

definition mm_realloc :: "word_t \<Rightarrow> word_t \<Rightarrow> mm_state \<Rightarrow> (word_t \<times> mm_state) option" where
  "mm_realloc bp sz s =
     (if int_of_size sz < 0 then Some (0, s)
      else if int_of_size sz = 0 then Some (0, mm_free bp s)
      else if sz > 0 then
        (if bp = 0 then mm_malloc sz s
         else
           (let oldsize = GET_SIZE s (HDRP bp);
                asize = adjusted_size sz
            in if asize \<le> oldsize then Some (bp, s)
               else
                 (let next_alloc = GET_ALLOC s (HDRP (NEXT_BLKP s bp));
                      csize = oldsize + GET_SIZE s (HDRP (NEXT_BLKP s bp))
                  in if next_alloc = 0 \<and> asize \<le> csize then
                       (let s = remove_from_free_list (NEXT_BLKP s bp) s;
                            s = PUT (HDRP bp) (PACK csize 1) s;
                            s = PUT (FTRP s bp) (PACK csize 1) s
                        in Some (bp, s))
                     else
                       (case mm_malloc sz s of
                          None \<Rightarrow> None
                        | Some (new_ptr, s) \<Rightarrow>
                            (let s = memcpy new_ptr bp oldsize s;
                                 s = mm_free bp s
                             in Some (new_ptr, s))))))
      else Some (0, s))"

subsection \<open>The consistency checker\<close>

text \<open>
  The checker prints one line per inconsistency; the model returns the lines as a list.
  Modelled from the spec: \<open>mem_heap_lo\<close> and \<open>mem_heap_hi\<close> of memlib.c (not among
  the sources), the queries that return the current bounds of the heap, its first and its
  last byte.
\<close>

datatype diag =
    Not_aligned word_t
  | Header_footer_mismatch word_t
  | Next_pointer_out_of_bounds word_t
  | Prev_pointer_out_of_bounds word_t
  | Allocated_in_free_list word_t
  | Escaped_coalescing word_t
  | Prev_not_free word_t
  | Next_not_free word_t

definition mem_heap_lo :: "mm_state \<Rightarrow> word_t" where
  "mem_heap_lo s = mem_heap s"

definition mem_heap_hi :: "mm_state \<Rightarrow> word_t" where
  "mem_heap_hi s = mem_brk s - 1"

text \<open>
  \<open>checkblock\<close>. In the source the test of the previous pointer is not under
  \<open>if(GET_ALLOC(bp) == 0)\<close>: that \<open>if\<close> has no braces and guards the test of the
  next pointer only.
\<close>

definition checkblock :: "mm_state \<Rightarrow> word_t \<Rightarrow> diag list" where
  "checkblock s bp =
     (if bp mod DSIZE \<noteq> 0 then [Not_aligned bp] else []) @
     (if GET s (HDRP bp) \<noteq> GET s (FTRP s bp) then [Header_footer_mismatch bp] else []) @
     (if GET_ALLOC s bp = 0
      then (if GET_NEXT_PTR s bp < mem_heap_lo s \<or> mem_heap_hi s < GET_NEXT_PTR s bp
            then [Next_pointer_out_of_bounds (GET_NEXT_PTR s bp)] else [])
      else []) @
     (if GET_PREV_PTR s bp \<noteq> 0
      then (if GET_PREV_PTR s bp < mem_heap_lo s \<or> mem_heap_hi s < GET_PREV_PTR s bp
            then [Prev_pointer_out_of_bounds (GET_PREV_PTR s bp)] else [])
      else [])"

text \<open>
  The body of the loop over the free list in \<open>checkheap\<close> (lines 498 to 515), for the
  visited block \<open>bp\<close>, and the loop itself (line 497), which runs until it meets the
  prologue.
\<close>

definition check_free_list_entry :: "mm_state \<Rightarrow> word_t \<Rightarrow> diag list" where
  "check_free_list_entry s bp =
     (if GET_ALLOC s (HDRP bp) \<noteq> 0 then [Allocated_in_free_list bp] else []) @
     (if GET_ALLOC s (PREV_BLKP s bp) \<noteq> 1 \<or> GET_ALLOC s (NEXT_BLKP s bp) \<noteq> 1
      then [Escaped_coalescing bp] else []) @
     (if bp \<noteq> free_listp s
      then (if GET_ALLOC s (GET_PREV_PTR s (HDRP bp)) \<noteq> 0 then [Prev_not_free bp] else [])
      else []) @
     (if GET_ALLOC s (GET_NEXT_PTR s (HDRP bp)) \<noteq> 0 then [Next_not_free bp] else [])"

partial_function (option) check_free_list :: "mm_state \<Rightarrow> word_t \<Rightarrow> diag list \<Rightarrow> diag list option" where
  "check_free_list s bp out =
     (if bp \<noteq> heap_listp s
      then check_free_list s (GET_NEXT_PTR s bp) (out @ check_free_list_entry s bp)
      else Some out)"

declare check_free_list.simps [code]

subsection \<open>Notions the properties are stated with\<close>

text \<open>The \<open>n\<close>-th block of the free list: \<open>n\<close> steps along the next links from the head.\<close>

definition free_list_nth :: "mm_state \<Rightarrow> nat \<Rightarrow> word_t" where
  "free_list_nth s n = (GET_NEXT_PTR s ^^ n) (free_listp s)"

text \<open>
  The first \<open>n\<close> members of the free list as the checker walks it: from \<open>bp\<close> along the
  next links, until the prologue.
\<close>

fun free_list_walk :: "nat \<Rightarrow> mm_state \<Rightarrow> word_t \<Rightarrow> word_t list" where
  "free_list_walk 0 s bp = []"
| "free_list_walk (Suc n) s bp =
     (if bp \<noteq> heap_listp s then bp # free_list_walk n s (GET_NEXT_PTR s bp) else [])"

subsection \<open>Example heaps\<close>

text \<open>
  An empty heap at address 4096 that can grow by the 4144 bytes \<open>mm_init\<close> asks for and
  no further, and the states a sequence of calls leads through. \<open>h_init\<close> is the heap
  after \<open>mm_init\<close>; \<open>h_a\<close> and \<open>h_ab\<close> follow two calls \<open>mm_malloc(16)\<close>, which return
  4144 and 4176; \<open>h_b\<close> is \<open>h_ab\<close> after \<open>mm_free(4144)\<close>.
\<close>

definition fresh :: mm_state where
  "fresh = \<lparr>mem = (\<lambda>_. 0), heap_listp = 0, free_listp = 0, mem_heap = 4096,
     mem_brk = 4096, mem_max_addr = 8240\<rparr>"

definition h_init :: mm_state where
  "h_init = \<lparr>mem = (\<lambda>_. 0)
       (4096 := 0, 4104 := 33, 4120 := 0, 4128 := 33, 4136 := 4096, 8224 := 4096,
        8232 := 1, 4152 := 4112, 4112 := 4144, 4144 := 0),
     heap_listp = 4112, free_listp = 4144, mem_heap = 4096, mem_brk = 8240,
     mem_max_addr = 8240\<rparr>"

definition h_a :: mm_state where
  "h_a = \<lparr>mem = (\<lambda>_. 0)
       (4096 := 0, 4104 := 33, 4120 := 0, 4128 := 33, 8232 := 1, 4152 := 4112,
        4144 := 0, 4136 := 33, 4160 := 33, 4168 := 4064, 8224 := 4064, 4184 := 4112,
        4112 := 4176, 4176 := 0),
     heap_listp = 4112, free_listp = 4176, mem_heap = 4096, mem_brk = 8240,
     mem_max_addr = 8240\<rparr>"

definition h_ab :: mm_state where
  "h_ab = \<lparr>mem = (\<lambda>_. 0)
       (4096 := 0, 4104 := 33, 4120 := 0, 4128 := 33, 8232 := 1, 4152 := 4112,
        4144 := 0, 4136 := 33, 4160 := 33, 4184 := 4112, 4176 := 0, 4168 := 33,
        4192 := 33, 4200 := 4032, 8224 := 4032, 4216 := 4112, 4112 := 4208, 4208 := 0),
     heap_listp = 4112, free_listp = 4208, mem_heap = 4096, mem_brk = 8240,
     mem_max_addr = 8240\<rparr>"

definition h_b :: mm_state where
  "h_b = \<lparr>mem = (\<lambda>_. 0)
       (4096 := 0, 4104 := 33, 4120 := 0, 4128 := 33, 8232 := 1, 4184 := 4112,
        4176 := 0, 4168 := 33, 4192 := 33, 4200 := 4032, 8224 := 4032, 4216 := 4112,
        4112 := 4208, 4136 := 32, 4160 := 32, 4152 := 4208, 4208 := 4144, 4144 := 0),
     heap_listp = 4112, free_listp = 4144, mem_heap = 4096, mem_brk = 8240,
     mem_max_addr = 8240\<rparr>"

text \<open>
  \<open>h_wrap\<close> is \<open>h_b\<close> after \<open>mm_malloc(2^64 - 31)\<close>, \<open>h_reuse\<close> follows
  \<open>mm_malloc(1)\<close> and \<open>h_twice\<close> follows \<open>mm_free(4176)\<close>.
\<close>

definition h_wrap :: mm_state where
  "h_wrap = \<lparr>mem = (\<lambda>_. 0)
       (4096 := 0, 4104 := 33, 4120 := 0, 8232 := 1, 4184 := 4112, 4176 := 0,
        4168 := 33, 4200 := 4032, 8224 := 4032, 4216 := 4112, 4112 := 4208, 4128 := 1,
        4160 := 32, 4136 := 64, 4192 := 64, 4152 := 4208, 4208 := 4144, 4144 := 0),
     heap_listp = 4112, free_listp = 4144, mem_heap = 4096, mem_brk = 8240,
     mem_max_addr = 8240\<rparr>"

definition h_reuse :: mm_state where
  "h_reuse = \<lparr>mem = (\<lambda>_. 0)
       (4096 := 0, 4104 := 33, 4120 := 0, 8232 := 1, 4200 := 4032, 4216 := 4112,
        4128 := 1, 4152 := 4208, 4144 := 0, 4136 := 33, 4160 := 33, 4208 := 0,
        4192 := 32, 4168 := 4064, 8224 := 4064, 4184 := 4112, 4112 := 4176, 4176 := 0),
     heap_listp = 4112, free_listp = 4176, mem_heap = 4096, mem_brk = 8240,
     mem_max_addr = 8240\<rparr>"

definition h_twice :: mm_state where
  "h_twice = \<lparr>mem = (\<lambda>_. 0)
       (4096 := 0, 4104 := 33, 4120 := 0, 8232 := 1, 4200 := 4032, 4216 := 4112,
        4128 := 1, 4152 := 4208, 4144 := 0, 4136 := 33, 4160 := 33, 4208 := 0,
        4192 := 32, 4112 := 4176, 4168 := 4064, 8224 := 4064, 4184 := 4176, 4176 := 0),
     heap_listp = 4112, free_listp = 4176, mem_heap = 4096, mem_brk = 8240,
     mem_max_addr = 8240\<rparr>"

section \<open>Evaluating the allocator on the example heaps\<close>

lemmas macro_defs = WSIZE_def DSIZE_def CHUNKSIZE_def MAX_of_def PACK_def GET_def PUT_def
  GET_SIZE_def GET_ALLOC_def HDRP_def FTRP_def NEXT_BLKP_def PREV_BLKP_def GET_NEXT_PTR_def
  GET_PREV_PTR_def SET_NEXT_PTR_def SET_PREV_PTR_def

lemmas op_defs = mem_sbrk_def extend_heap_def coalesce_def insert_in_free_list_def
  remove_from_free_list_def place_def mm_malloc_def mm_free_def find_fit_def
  adjusted_size_def mm_init_def

lemmas run_defs = macro_defs op_defs Let_def find_fit_from.simps

lemma run_init: "mm_init fresh = (0, h_init)"
  by (simp add: fresh_def h_init_def run_defs cong: let_weak_cong prod.case_cong_weak)

lemma run_malloc_a: "mm_malloc 16 h_init = Some (4144, h_a)"
  by (simp add: h_init_def h_a_def run_defs cong: let_weak_cong prod.case_cong_weak)

lemma run_malloc_b: "mm_malloc 16 h_a = Some (4176, h_ab)"
  by (simp add: h_a_def h_ab_def run_defs cong: let_weak_cong prod.case_cong_weak)

lemma run_free_a: "mm_free 4144 h_ab = h_b"
  by (simp add: h_ab_def h_b_def run_defs cong: let_weak_cong prod.case_cong_weak)

lemma run_malloc_wrap: "mm_malloc 18446744073709551585 h_b = Some (4144, h_wrap)"
  by (simp add: h_b_def h_wrap_def run_defs cong: let_weak_cong prod.case_cong_weak)

lemma run_malloc_reuse: "mm_malloc 1 h_wrap = Some (4144, h_reuse)"
  by (simp add: h_wrap_def h_reuse_def run_defs cong: let_weak_cong prod.case_cong_weak)

lemma run_free_b: "mm_free 4176 h_reuse = h_twice"
  by (simp add: h_reuse_def h_twice_def run_defs cong: let_weak_cong prod.case_cong_weak)

lemma run_malloc_fails: "mm_malloc 5000 h_ab = Some (0, h_ab)"
  by (simp add: h_ab_def run_defs cong: let_weak_cong prod.case_cong_weak)

section \<open>The adjusted size\<close>

text \<open>
  C8 (the code fails the claim): the adjusted size is computed in \<open>size_t\<close> arithmetic,
  and \<open>size + DSIZE + (DSIZE - 1)\<close> wraps around for the 31 largest sizes. For a request
  of \<open>2^64 - 1\<close> bytes the adjusted size is 16, and for \<open>2^64 - 31\<close> bytes it is 0:
  below the minimum block size \<open>2 * DSIZE\<close>, not the rounded-up sum the claim states.
\<close>

theorem adjusted_size_wraps:
  "adjusted_size 18446744073709551615 = 16 \<and> adjusted_size 18446744073709551585 = 0 \<and>
   \<not> 2 * DSIZE \<le> adjusted_size 18446744073709551615"
  by (simp add: adjusted_size_def DSIZE_def WSIZE_def)

section \<open>Reallocation: the guards on the size\<close>

text \<open>
  C3 (the code fails the claim): the two guards of \<open>mm_realloc\<close> test \<open>(int)size\<close>,
  the low 32 bits of the 64-bit size. A size of \<open>2^32\<close> is not zero, yet the block is
  freed and null returned; a size of \<open>2^31\<close> is positive, yet the call is rejected with
  null.
\<close>

theorem realloc_int_cast:
  "mm_realloc bp 4294967296 s = Some (0, mm_free bp s) \<and>
   mm_realloc bp 2147483648 s = Some (0, s)"
  by (simp add: mm_realloc_def int_of_size_def)

text \<open>
  C4 (the code fails the claim): in the out-of-place path the result of \<open>mm_malloc\<close> is
  not tested. On \<open>h_ab\<close> the heap cannot grow, \<open>mm_malloc(5000)\<close> returns null, and
  \<open>mm_realloc(4144, 5000)\<close> still copies the old block (to the null address) and frees
  it: block 4144, allocated before the call, is free and heads the free list after it.
\<close>

theorem realloc_unchecked_malloc:
  "mm_malloc 5000 h_ab = Some (0, h_ab) \<and>
   (\<exists>s'. mm_realloc 4144 5000 h_ab = Some (0, s') \<and>
      GET_ALLOC h_ab (HDRP 4144) = 1 \<and> GET_ALLOC s' (HDRP 4144) = 0 \<and> free_listp s' = 4144 \<and>
      mem h_ab 8 = 0 \<and> mem s' 8 = 4112 \<and> mem h_ab 16 = 0 \<and> mem s' 16 = 33)"
  by (simp add: h_ab_def run_defs mm_realloc_def int_of_size_def memcpy_def
        cong: let_weak_cong prod.case_cong_weak)

section \<open>First fit\<close>

lemma find_fit_from_skip:
  "(\<And>i. i < n \<Longrightarrow> GET_ALLOC s (HDRP ((GET_NEXT_PTR s ^^ i) bp)) = 0 \<and>
        GET_SIZE s (HDRP ((GET_NEXT_PTR s ^^ i) bp)) < asize) \<Longrightarrow>
   find_fit_from asize s bp = find_fit_from asize s ((GET_NEXT_PTR s ^^ n) bp)"
proof (induction n arbitrary: bp)
  case 0
  then show ?case by simp
next
  case (Suc n)
  have here: "GET_ALLOC s (HDRP bp) = 0" "GET_SIZE s (HDRP bp) < asize"
    using Suc.prems [of 0] by simp_all
  have step: "find_fit_from asize s bp = find_fit_from asize s (GET_NEXT_PTR s bp)"
  proof -
    have "\<not> asize \<le> GET_SIZE s (HDRP bp)"
      using here(2) by (simp add: not_le)
    with here(1) show ?thesis
      by (subst find_fit_from.simps) simp
  qed
  have rest: "find_fit_from asize s (GET_NEXT_PTR s bp)
      = find_fit_from asize s ((GET_NEXT_PTR s ^^ n) (GET_NEXT_PTR s bp))"
  proof (rule Suc.IH)
    fix i assume "i < n"
    then show "GET_ALLOC s (HDRP ((GET_NEXT_PTR s ^^ i) (GET_NEXT_PTR s bp))) = 0 \<and>
        GET_SIZE s (HDRP ((GET_NEXT_PTR s ^^ i) (GET_NEXT_PTR s bp))) < asize"
      using Suc.prems [of "Suc i"] by (simp add: funpow_swap1)
  qed
  show ?case using step rest by (simp add: funpow_swap1)
qed

text \<open>
  C5: \<open>find_fit\<close> returns the first block along the next links from \<open>free_listp\<close>
  that is free and large enough. If the first \<open>n\<close> blocks of the walk are free and
  smaller than \<open>asize\<close>, then \<open>find_fit\<close> terminates, with the \<open>n\<close>-th block when that
  one is free and of size at least \<open>asize\<close>, and with null when its header has the
  allocated bit set (the prologue).
\<close>

theorem find_fit_first_fit:
  assumes "\<forall>i<n. GET_ALLOC s (HDRP (free_list_nth s i)) = 0 \<and>
             GET_SIZE s (HDRP (free_list_nth s i)) < asize"
  shows "(GET_ALLOC s (HDRP (free_list_nth s n)) = 0 \<and>
            asize \<le> GET_SIZE s (HDRP (free_list_nth s n))
          \<longrightarrow> find_fit asize s = Some (free_list_nth s n)) \<and>
         (GET_ALLOC s (HDRP (free_list_nth s n)) \<noteq> 0 \<longrightarrow> find_fit asize s = Some 0)"
proof -
  have "find_fit asize s = find_fit_from asize s (free_list_nth s n)"
    unfolding find_fit_def free_list_nth_def
    using assms by (intro find_fit_from_skip) (simp add: free_list_nth_def)
  also have "\<dots> = (if GET_ALLOC s (HDRP (free_list_nth s n)) = 0
      then (if asize \<le> GET_SIZE s (HDRP (free_list_nth s n)) then Some (free_list_nth s n)
            else find_fit_from asize s (GET_NEXT_PTR s (free_list_nth s n)))
      else Some 0)"
    by (rule find_fit_from.simps)
  finally show ?thesis by simp
qed

lemma h_b_free_list:
  "free_list_nth h_b 0 = 4144" "free_list_nth h_b (Suc 0) = 4208"
  "free_list_nth h_b (Suc (Suc 0)) = 4112"
  by (simp_all add: free_list_nth_def h_b_def GET_NEXT_PTR_def WSIZE_def)

lemma h_b_headers:
  "GET_ALLOC h_b (HDRP 4144) = 0" "GET_SIZE h_b (HDRP 4144) = 32"
  "GET_ALLOC h_b (HDRP 4208) = 0" "GET_SIZE h_b (HDRP 4208) = 4032"
  "GET_ALLOC h_b (HDRP 4112) = 1"
  by (simp_all add: h_b_def macro_defs)

text \<open>
  On \<open>h_b\<close> the free list is 4144 (32 bytes), 4208 (4032 bytes), then the prologue 4112:
  a request of 32 bytes gets the head, one of 64 bytes the second block, one of 8000 bytes
  null.
\<close>

theorem find_fit_first_fit_witness:
  "find_fit 32 h_b = Some 4144 \<and> find_fit 64 h_b = Some 4208 \<and> find_fit 8000 h_b = Some 0"
proof -
  have "find_fit 32 h_b = Some 4144"
    using find_fit_first_fit [of 0 h_b 32] by (simp add: h_b_free_list h_b_headers)
  moreover have "find_fit 64 h_b = Some 4208"
    using find_fit_first_fit [of "Suc 0" h_b 64] by (simp add: h_b_free_list h_b_headers)
  moreover have "find_fit 8000 h_b = Some 0"
    using find_fit_first_fit [of "Suc (Suc 0)" h_b 8000]
    by (simp add: h_b_free_list h_b_headers All_less_Suc)
  ultimately show ?thesis by simp
qed

section \<open>The checker's pass over the free list\<close>

text \<open>
  C9 (the code fails the claim): the pass reads the allocated bit of a neighbour from the
  first word of the neighbour's payload, not from its boundary tag, and reads the links
  of the visited block at \<open>HDRP(bp)\<close>, one word too low, so that the "next" link it tests
  is the previous link and the next link is never looked at. On \<open>h_init\<close> the only free
  block, 4144, lies between the allocated prologue and the allocated epilogue, yet the
  pass reports that it escaped coalescing; and the report for 4144 is the same when its
  next link is redirected to another address.
\<close>

theorem free_list_pass_misreads:
  "GET_ALLOC h_init (HDRP 4144) = 0 \<and>
   GET_ALLOC h_init (HDRP (NEXT_BLKP h_init 4144)) = 1 \<and>
   GET_ALLOC h_init (FTRP h_init (PREV_BLKP h_init 4144)) = 1 \<and>
   check_free_list h_init (free_listp h_init) [] = Some [Escaped_coalescing 4144] \<and>
   check_free_list_entry (SET_NEXT_PTR 4144 4176 h_init) 4144 = check_free_list_entry h_init 4144"
  by (simp add: check_free_list.simps check_free_list_entry_def h_init_def macro_defs)

text \<open>The pass over the consistent heap \<open>h_init\<close> does not come back without a report.\<close>

theorem free_list_pass_misreads_witness:
  "check_free_list h_init 4144 [] \<noteq> Some []"
  using free_list_pass_misreads by (simp add: h_init_def)

section \<open>The free-list invariant\<close>

text \<open>
  C7 (the code fails the claim): a request whose adjusted size wraps around to 0 is
  served from the first free block and leaves that block free, in the free list and
  twice as long as it was. After \<open>mm_init\<close>, two calls \<open>mm_malloc(16)\<close> (4144 and 4176)
  and \<open>mm_free(4144)\<close>, the call \<open>mm_malloc(2^64 - 31)\<close> returns 4144; the next
  \<open>mm_malloc(1)\<close> returns 4144 again and puts the still allocated block 4176 into the
  free list; \<open>mm_free(4176)\<close> then inserts it a second time. In the final heap block 4176
  is free and its next link points to itself: the walk of the free list meets it again
  and again and never reaches the prologue.
\<close>

theorem wrapped_request_breaks_free_list:
  "mm_init fresh = (0, h_init) \<and> mm_malloc 16 h_init = Some (4144, h_a) \<and>
   mm_malloc 16 h_a = Some (4176, h_ab) \<and> mm_free 4144 h_ab = h_b \<and>
   mm_malloc 18446744073709551585 h_b = Some (4144, h_wrap) \<and>
   mm_malloc 1 h_wrap = Some (4144, h_reuse) \<and> mm_free 4176 h_reuse = h_twice \<and>
   NEXT_BLKP h_twice (heap_listp h_twice) = 4144 \<and> NEXT_BLKP h_twice 4144 = 4176 \<and>
   GET_ALLOC h_twice (HDRP 4176) = 0 \<and>
   free_list_walk 3 h_twice (free_listp h_twice) = [4176, 4176, 4176]"
  by (simp add: run_init run_malloc_a run_malloc_b run_free_a run_malloc_wrap
        run_malloc_reuse run_free_b)
     (simp add: h_twice_def macro_defs numeral_3_eq_3)

end
